theory Spec2Isabelle
  imports Main "HOL-Library.AList"
begin

section \<open>The browser environment used by \<open>src/index.js\<close>\<close>

text \<open>
  The module calls three browser facilities: the query part of the page address
  (\<^verbatim>\<open>new URL(window.location.href).searchParams\<close>), the session history
  (\<^verbatim>\<open>history.pushState\<close>) and \<^verbatim>\<open>window.localStorage\<close>. They are modelled by the
  behaviour their standards give them, on parsed data: the query is the list of
  name/value pairs that \<^verbatim>\<open>URLSearchParams\<close> holds (duplicates and order kept), so
  serialising an address and parsing it again is taken to be the identity, and every
  storage access is taken to succeed (no quota or security error), as the specification
  assumes.
\<close>

type_synonym params = "(string \<times> string) list"

text \<open>\<^verbatim>\<open>searchParams.get(name)\<close>: the value of the first pair with that name, else null.\<close>

definition searchParams_get :: "params \<Rightarrow> string \<Rightarrow> string option" where
  "searchParams_get ps name = map_of ps name"

text \<open>\<^verbatim>\<open>searchParams.delete(name)\<close>: every pair with that name is removed.\<close>

definition searchParams_delete :: "string \<Rightarrow> params \<Rightarrow> params" where
  "searchParams_delete name ps = filter (\<lambda>p. fst p \<noteq> name) ps"

text \<open>
  \<^verbatim>\<open>searchParams.set(name, value)\<close>: the first pair with that name takes the value and
  the other pairs with that name are removed; without such a pair, a new one is appended.
\<close>

fun searchParams_set :: "string \<Rightarrow> string \<Rightarrow> params \<Rightarrow> params" where
  "searchParams_set name v [] = [(name, v)]"
| "searchParams_set name v (p # ps) =
     (if fst p = name then (name, v) # searchParams_delete name ps
      else p # searchParams_set name v ps)"

text \<open>An address: everything but the query (\<open>base\<close>), and the query.\<close>

record url =
  base :: string
  searchParams :: params

text \<open>
  A page (a \<^verbatim>\<open>window\<close>): the session history as the entries behind the current one
  (most recent first), the current address \<^verbatim>\<open>window.location.href\<close> and the entries
  ahead of it, and the durable storage of the origin.
\<close>

record page =
  back_entries :: "url list"
  href :: url
  forward_entries :: "url list"
  localStorage :: "string \<rightharpoonup> string"

text \<open>\<^verbatim>\<open>history.length\<close>.\<close>

definition history_length :: "page \<Rightarrow> nat" where
  "history_length p = length (back_entries p) + 1 + length (forward_entries p)"

text \<open>
  \<^verbatim>\<open>history.pushState({}, '', url)\<close>: a new entry for \<open>url\<close> is added after the
  current one and becomes current; the entries ahead are dropped; the document is not
  reloaded.
\<close>

definition pushState :: "url \<Rightarrow> page \<Rightarrow> page" where
  "pushState u p = p\<lparr>back_entries := href p # back_entries p, href := u, forward_entries := []\<rparr>"

definition setItem :: "string \<Rightarrow> string \<Rightarrow> page \<Rightarrow> page" where
  "setItem k v p = p\<lparr>localStorage := (localStorage p)(k \<mapsto> v)\<rparr>"

definition getItem :: "page \<Rightarrow> string \<Rightarrow> string option" where
  "getItem p k = localStorage p k"

definition removeItem :: "string \<Rightarrow> page \<Rightarrow> page" where
  "removeItem k p = p\<lparr>localStorage := (localStorage p)(k := None)\<rparr>"

section \<open>The provider\<close>

text \<open>
  A plain JavaScript object, given by its own properties, which are strings, in
  insertion order: \<^verbatim>\<open>{...storage, [k]: v}\<close> is \<open>AList.update k v\<close>,
  \<^verbatim>\<open>delete o[k]\<close> is \<open>AList.delete k\<close>, \<^verbatim>\<open>Object.keys(o)\<close> is \<open>map fst o\<close>,
  and \<open>map_of o k\<close> is the own property \<open>k\<close> (\<open>None\<close> when there is none).
\<close>

type_synonym obj = "(string \<times> string) list"

text \<open>
  The values a property read can give: a string, or a member that the object inherits
  from \<^verbatim>\<open>Object.prototype\<close> (a function such as \<^verbatim>\<open>toString\<close>, or the prototype
  object itself for \<^verbatim>\<open>__proto__\<close>), named by its property name. Null and undefined
  are both \<open>None\<close> of \<open>jsvalue option\<close>.
\<close>

datatype jsvalue = Str string | Inherited string

text \<open>The property names of \<^verbatim>\<open>Object.prototype\<close> in the language standard.\<close>

definition Object_prototype :: "string list" where
  "Object_prototype =
     [''constructor'', ''hasOwnProperty'', ''isPrototypeOf'', ''propertyIsEnumerable'',
      ''toLocaleString'', ''toString'', ''valueOf'', ''__proto__'',
      ''__defineGetter__'', ''__defineSetter__'', ''__lookupGetter__'', ''__lookupSetter__'']"

text \<open>
  The property read \<^verbatim>\<open>o[k]\<close>: the own property when there is one, else what the
  prototype chain gives, else undefined.
\<close>

definition get_property :: "obj \<Rightarrow> string \<Rightarrow> jsvalue option" where
  "get_property o' k =
     (case map_of o' k of
        Some s \<Rightarrow> Some (Str s)
      | None \<Rightarrow> if k \<in> set Object_prototype then Some (Inherited k) else None)"

text \<open>
  The properties of \<^verbatim>\<open>ThreeStoreProvider\<close> (without \<^verbatim>\<open>children\<close>). A property
  that is not passed is undefined, which every test of the code treats as false.
\<close>

record props =
  skipUrl :: bool
  skipLocalStore :: bool
  skipState :: bool
  clearUrlParamsOnUnmount :: bool
  clearLocalStoreOnUnmount :: bool

text \<open>
  The second argument of \<^verbatim>\<open>store\<close>, after \<^verbatim>\<open>options = options ?? {}\<close>: each of
  \<^verbatim>\<open>options.skipUrl\<close>, \<^verbatim>\<open>options.skipState\<close>, \<^verbatim>\<open>options.skipLocalStore\<close> is
  undefined (\<open>None\<close>), false or true. The fields carry the prefix \<open>o_\<close> because the
  names are those of the properties above.
\<close>

record options =
  o_skipUrl :: "bool option"
  o_skipState :: "bool option"
  o_skipLocalStore :: "bool option"

definition no_options :: options where
  "no_options = \<lparr>o_skipUrl = None, o_skipState = None, o_skipLocalStore = None\<rparr>"

text \<open>JavaScript truthiness of such a flag: \<^verbatim>\<open>!x\<close> is false only for \<^verbatim>\<open>true\<close>.\<close>

definition truthy :: "bool option \<Rightarrow> bool" where
  "truthy x = (x = Some True)"

text \<open>\<^verbatim>\<open>options ?? {}\<close>, line 69.\<close>

definition nullish_options :: "options option \<Rightarrow> options" where
  "nullish_options options = (case options of None \<Rightarrow> no_options | Some opts \<Rightarrow> opts)"

text \<open>
  The variables that the body of one run of the component function binds and that the
  functions created in that run refer to: the properties and \<^verbatim>\<open>storage\<close>, the value
  that \<^verbatim>\<open>useState\<close> returned in that run.
\<close>

record render =
  props :: props
  storage :: obj

text \<open>
  What the functions act on: \<^verbatim>\<open>window\<close> (\<open>None\<close> when
  \<^verbatim>\<open>typeof window === 'undefined'\<close>, as in server-side rendering) and the current
  value of the state cell that \<^verbatim>\<open>useState({})\<close> created. \<^verbatim>\<open>setStorage(f)\<close>
  replaces the cell's value by \<open>f\<close> of it; the framework applies queued updaters in call
  order, so applying each at once gives the same value.
\<close>

record world =
  window :: "page option"
  state :: obj

definition setStorage :: "(obj \<Rightarrow> obj) \<Rightarrow> world \<Rightarrow> world" where
  "setStorage f w = w\<lparr>state := f (state w)\<rparr>"

text \<open>
  The errors the code can raise: a read of the undeclared variable \<^verbatim>\<open>window\<close>
  (ReferenceError) and a call of something that is not a function (TypeError).
\<close>

datatype error = ReferenceError | TypeError

text \<open>
  \<^verbatim>\<open>store(storable, options)\<close>, lines 67 to 83. \<open>storable\<close> is the pair
  \<^verbatim>\<open>[storable[0], storable[1]]\<close> of strings. The result is the error raised, if any,
  and the world as the call leaves it: the state update of line 76 is not undone by the
  error that line 80 raises when there is no \<^verbatim>\<open>window\<close>.
\<close>

definition store :: "render \<Rightarrow> string \<times> string \<Rightarrow> options option \<Rightarrow> world \<Rightarrow> error option \<times> world" where
  "store r storable options w =
     (let options = nullish_options options;
          w1 = (if \<not> skipUrl (props r) \<and> \<not> truthy (o_skipUrl options) \<and> window w \<noteq> None
                then (case window w of
                        None \<Rightarrow> w
                      | Some p \<Rightarrow>
                          (let url = href p;
                               url = url\<lparr>searchParams :=
                                       searchParams_set (fst storable) (snd storable) (searchParams url)\<rparr>
                           in w\<lparr>window := Some (pushState url p)\<rparr>))
                else w);
          w2 = (if \<not> skipState (props r) \<and> \<not> truthy (o_skipState options)
                then setStorage (\<lambda>storage. AList.update (fst storable) (snd storable) storage) w1
                else w1)
      in if \<not> skipLocalStore (props r) \<and> \<not> truthy (o_skipLocalStore options)
         then (case window w2 of
                 None \<Rightarrow> (Some ReferenceError, w2)
               | Some p \<Rightarrow> (None, w2\<lparr>window := Some (setItem (fst storable) (snd storable) p)\<rparr>))
         else (None, w2))"

text \<open>
  \<^verbatim>\<open>a || b\<close>: \<open>a\<close> when it is truthy, that is a non-empty string or an inherited
  member (a function or an object), else \<open>b\<close>.
\<close>

definition js_or :: "jsvalue option \<Rightarrow> jsvalue option \<Rightarrow> jsvalue option" where
  "js_or a b =
     (case a of
        None \<Rightarrow> b
      | Some (Str s) \<Rightarrow> if s = [] then b else a
      | Some (Inherited k) \<Rightarrow> a)"

text \<open>
  \<^verbatim>\<open>getStored(key)\<close>, lines 85 to 100. With a \<^verbatim>\<open>window\<close> the function returns at
  line 91 whatever the query holds, null included. The lines after it run only without
  a \<^verbatim>\<open>window\<close>, where the test of line 95 fails and \<^verbatim>\<open>localStoreValue\<close> stays
  undefined. Line 93 is a property read on a plain object, so it also finds what the
  object inherits.
\<close>

definition getStored :: "render \<Rightarrow> string \<Rightarrow> world \<Rightarrow> jsvalue option" where
  "getStored r key w =
     (case window w of
        Some p \<Rightarrow>
          (let url = href p; urlValue = map_option Str (searchParams_get (searchParams url) key)
           in urlValue)
      | None \<Rightarrow>
          (let stateValue = get_property (storage r) key;
               localStoreValue = (case window w of None \<Rightarrow> None | Some p \<Rightarrow> map_option Str (getItem p key))
           in js_or (js_or stateValue localStoreValue) None))"

text \<open>\<^verbatim>\<open>clearStored(key)\<close>, lines 101 to 118. No flag is read and nothing can raise.\<close>

definition clearStored :: "render \<Rightarrow> string \<Rightarrow> world \<Rightarrow> world" where
  "clearStored r key w =
     (let w1 = (case window w of
                  None \<Rightarrow> w
                | Some p \<Rightarrow>
                    (let url = href p;
                         url = url\<lparr>searchParams := searchParams_delete key (searchParams url)\<rparr>
                     in w\<lparr>window := Some (pushState url p)\<rparr>));
          w2 = setStorage (\<lambda>storage. (let newStorage = storage in AList.delete key newStorage)) w1
      in (case window w2 of
            None \<Rightarrow> w2
          | Some p \<Rightarrow> w2\<lparr>window := Some (removeItem key p)\<rparr>))"

text \<open>
  The second loop of the clean-up function, lines 54 to 58. \<^verbatim>\<open>Storage\<close> has no method
  \<^verbatim>\<open>delete\<close>, so \<^verbatim>\<open>window.localStorage.delete(key)\<close> raises a TypeError with a
  \<^verbatim>\<open>window\<close> and a ReferenceError without one; the loop ends there.
\<close>

fun forEach_delete :: "bool \<Rightarrow> string list \<Rightarrow> world \<Rightarrow> error option \<times> world" where
  "forEach_delete flag [] w = (None, w)"
| "forEach_delete flag (key # keys) w =
     (if flag
      then (case window w of
              None \<Rightarrow> (Some ReferenceError, w)
            | Some p \<Rightarrow> (Some TypeError, w))
      else forEach_delete flag keys w)"

text \<open>
  The clean-up function that the effect of lines 42 to 60 returns. \<^verbatim>\<open>storage\<close> is
  the variable of the run of the component function in which the effect was created.
\<close>

definition cleanup :: "render \<Rightarrow> world \<Rightarrow> error option \<times> world" where
  "cleanup r w =
     (let cleanupKeys = map fst (storage r);
          w1 = (case window w of
                  None \<Rightarrow> w
                | Some p \<Rightarrow>
                    (let url = href p;
                         url = url\<lparr>searchParams := fold searchParams_delete cleanupKeys (searchParams url)\<rparr>
                     in if clearUrlParamsOnUnmount (props r)
                        then w\<lparr>window := Some (pushState url p)\<rparr>
                        else w))
      in forEach_delete (clearLocalStoreOnUnmount (props r)) cleanupKeys w1)"

text \<open>
  The hooks. \<^verbatim>\<open>useState({})\<close> gives the empty object in the first run of the
  component function. Every \<^verbatim>\<open>useCallback(f, [])\<close> and the \<^verbatim>\<open>useEffect(f, [])\<close> have
  an empty dependency list, so the framework keeps the functions created in the first
  run for the whole life of the provider: \<^verbatim>\<open>store\<close>, \<^verbatim>\<open>getStored\<close>,
  \<^verbatim>\<open>clearStored\<close> and the clean-up function all see the bindings of that run, in
  which \<^verbatim>\<open>storage\<close> is the empty object, whatever \<^verbatim>\<open>setStorage\<close> has put into
  the state cell since. \<open>ThreeStoreProvider p\<close> is that first run, \<open>mount\<close> creates the
  state cell, and \<open>unmount\<close> runs the clean-up function.
\<close>

definition ThreeStoreProvider :: "props \<Rightarrow> render" where
  "ThreeStoreProvider p = \<lparr>props = p, storage = []\<rparr>"

definition mount :: "world \<Rightarrow> world" where
  "mount w = w\<lparr>state := []\<rparr>"

definition unmount :: "props \<Rightarrow> world \<Rightarrow> error option \<times> world" where
  "unmount p w = cleanup (ThreeStoreProvider p) w"

text \<open>
  What can be observed of a world: the query of the address and the durable storage
  (there is neither without a \<^verbatim>\<open>window\<close>), and the state cell.
\<close>

definition url_params :: "world \<Rightarrow> params option" where
  "url_params w = map_option (\<lambda>p. searchParams (href p)) (window w)"

definition durable :: "world \<Rightarrow> (string \<rightharpoonup> string) option" where
  "durable w = map_option localStorage (window w)"

definition url_value :: "world \<Rightarrow> string \<Rightarrow> string option" where
  "url_value w key = (case window w of None \<Rightarrow> None | Some p \<Rightarrow> searchParams_get (searchParams (href p)) key)"

definition state_value :: "world \<Rightarrow> string \<Rightarrow> string option" where
  "state_value w key = map_of (state w) key"

definition durable_value :: "world \<Rightarrow> string \<Rightarrow> string option" where
  "durable_value w key = (case window w of None \<Rightarrow> None | Some p \<Rightarrow> getItem p key)"

definition observable :: "world \<Rightarrow> params option \<times> obj \<times> (string \<rightharpoonup> string) option" where
  "observable w = (url_params w, state w, durable w)"

text \<open>
  A page freshly opened at an address without a query, with empty storage and no other
  history entry; a provider with every flag false; the world before the provider mounts.
\<close>

definition blank_page :: page where
  "blank_page = \<lparr>back_entries = [], href = \<lparr>base = ''https://example.org/'', searchParams = []\<rparr>,
                  forward_entries = [], localStorage = Map.empty\<rparr>"

definition no_flags :: props where
  "no_flags = \<lparr>skipUrl = False, skipLocalStore = False, skipState = False,
                clearUrlParamsOnUnmount = False, clearLocalStoreOnUnmount = False\<rparr>"

definition browser :: world where
  "browser = \<lparr>window = Some blank_page, state = []\<rparr>"

definition server :: world where
  "server = \<lparr>window = None, state = []\<rparr>"

section \<open>Facts about the browser operations and the three functions\<close>

lemma get_set_same: "searchParams_get (searchParams_set k v ps) k = Some v"
  by (induction ps) (auto simp: searchParams_get_def)

lemma get_delete_same: "searchParams_get (searchParams_delete k ps) k = None"
  by (induction ps) (auto simp: searchParams_get_def searchParams_delete_def)

lemma get_delete_other:
  "k' \<noteq> k \<Longrightarrow> searchParams_get (searchParams_delete k ps) k' = searchParams_get ps k'"
  by (induction ps) (auto simp: searchParams_get_def searchParams_delete_def)

lemma get_set_other:
  "k' \<noteq> k \<Longrightarrow> searchParams_get (searchParams_set k v ps) k' = searchParams_get ps k'"
proof (induction ps)
  case Nil
  then show ?case by (simp add: searchParams_get_def)
next
  case (Cons p ps)
  show ?case
  proof (cases "fst p = k")
    case True
    with Cons.prems get_delete_other [of k' k ps] show ?thesis
      by (cases p) (simp add: searchParams_get_def)
  next
    case False
    with Cons show ?thesis
      by (cases p) (simp add: searchParams_get_def)
  qed
qed

lemma delete_delete: "searchParams_delete k (searchParams_delete k ps) = searchParams_delete k ps"
  by (simp add: searchParams_delete_def)

lemma set_idem: "searchParams_set k v (searchParams_set k v ps) = searchParams_set k v ps"
  by (induction ps) (auto simp: delete_delete, simp add: searchParams_delete_def)

lemma store_state:
  "state (snd (store r (k, v) options w)) =
     (if skipState (props r) \<or> truthy (o_skipState (nullish_options options)) then state w
      else AList.update k v (state w))"
  by (simp add: store_def Let_def setStorage_def split: option.splits)

lemma store_url_params:
  "url_params (snd (store r (k, v) options w)) =
     (if skipUrl (props r) \<or> truthy (o_skipUrl (nullish_options options)) then url_params w
      else map_option (searchParams_set k v) (url_params w))"
  by (auto simp: store_def Let_def setStorage_def url_params_def pushState_def setItem_def
           split: option.splits)

lemma store_durable:
  "durable (snd (store r (k, v) options w)) =
     (if skipLocalStore (props r) \<or> truthy (o_skipLocalStore (nullish_options options)) then durable w
      else map_option (\<lambda>m. m(k \<mapsto> v)) (durable w))"
  by (auto simp: store_def Let_def setStorage_def durable_def pushState_def setItem_def
           split: option.splits)

lemma store_raises:
  "fst (store r e options w) =
     (if \<not> skipLocalStore (props r) \<and> \<not> truthy (o_skipLocalStore (nullish_options options)) \<and> window w = None
      then Some ReferenceError else None)"
  by (auto simp: store_def Let_def setStorage_def split: option.splits)

lemma store_window_None:
  "(window (snd (store r e options w)) = None) = (window w = None)"
  by (auto simp: store_def Let_def setStorage_def split: option.splits)

lemma url_value_params:
  "url_value w key = (case url_params w of None \<Rightarrow> None | Some ps \<Rightarrow> searchParams_get ps key)"
  by (simp add: url_value_def url_params_def split: option.splits)

lemma durable_value_durable:
  "durable_value w key = (case durable w of None \<Rightarrow> None | Some m \<Rightarrow> m key)"
  by (simp add: durable_value_def durable_def getItem_def split: option.splits)

lemma clearStored_state: "state (clearStored r key w) = AList.delete key (state w)"
  by (simp add: clearStored_def Let_def setStorage_def split: option.splits)

lemma clearStored_url_params:
  "url_params (clearStored r key w) = map_option (searchParams_delete key) (url_params w)"
  by (simp add: clearStored_def Let_def setStorage_def url_params_def removeItem_def pushState_def
           split: option.splits)

lemma clearStored_durable:
  "durable (clearStored r key w) = map_option (\<lambda>m. m(key := None)) (durable w)"
  by (simp add: clearStored_def Let_def setStorage_def durable_def removeItem_def pushState_def
           split: option.splits)

lemma getStored_window:
  "window w = Some p \<Longrightarrow>
     getStored r key w = map_option Str (searchParams_get (searchParams (href p)) key)"
  by (simp add: getStored_def)

lemma getStored_mounted:
  "getStored (ThreeStoreProvider q) key w =
     (case window w of
        Some p \<Rightarrow> map_option Str (url_value w key)
      | None \<Rightarrow> if key \<in> set Object_prototype then Some (Inherited key) else None)"
  by (simp add: getStored_def ThreeStoreProvider_def url_value_def js_or_def get_property_def
           split: option.splits)

lemma clearStored_window_None:
  "(window (clearStored r key w) = None) = (window w = None)"
  by (simp add: clearStored_def Let_def setStorage_def split: option.splits)

lemma clearStored_clears:
  "url_value (clearStored r key w) key = None
   \<and> state_value (clearStored r key w) key = None
   \<and> durable_value (clearStored r key w) key = None"
proof -
  let ?w = "clearStored r key w"
  have u: "url_value ?w key = None"
    by (cases "url_params w")
       (simp_all add: url_value_params clearStored_url_params get_delete_same)
  have s: "state_value ?w key = None"
    by (simp add: state_value_def clearStored_state AList.delete_conv')
  have d: "durable_value ?w key = None"
    by (cases "durable w") (simp_all add: durable_value_durable clearStored_durable)
  from u s d show ?thesis by simp
qed

lemma clearStored_getStored:
  assumes "window w \<noteq> None \<or> key \<notin> set Object_prototype"
  shows "getStored (ThreeStoreProvider q) key (clearStored r key w) = None"
proof (cases "window (clearStored r key w)")
  case None
  then have "window w = None"
    by (simp add: clearStored_window_None)
  with assms None show ?thesis
    by (simp add: getStored_mounted)
next
  case (Some p)
  with clearStored_clears [of r key w] show ?thesis
    by (simp add: getStored_mounted)
qed

lemma store_getStored_window:
  assumes "window w = Some p"
    and "\<not> skipUrl (props r)" and "\<not> truthy (o_skipUrl (nullish_options options))"
  shows "getStored r key (snd (store r (key, value) options w)) = Some (Str value)"
proof -
  let ?w = "snd (store r (key, value) options w)"
  from assms(1) store_window_None [of r "(key, value)" options w]
  obtain p' where p': "window ?w = Some p'" by auto
  have "url_params ?w = map_option (searchParams_set key value) (url_params w)"
    using assms(2,3) by (simp add: store_url_params)
  with assms(1) p' have "searchParams (href p') = searchParams_set key value (searchParams (href p))"
    by (simp add: url_params_def)
  with p' show ?thesis by (simp add: getStored_window get_set_same)
qed

lemma unmount_removes_nothing:
  "fst (unmount q w) = None \<and> url_params (snd (unmount q w)) = url_params w
   \<and> durable (snd (unmount q w)) = durable w \<and> state (snd (unmount q w)) = state w"
  by (simp add: unmount_def cleanup_def ThreeStoreProvider_def Let_def url_params_def durable_def
        pushState_def split: option.splits)

section \<open>The claims\<close>

text \<open>
  Claim C1 (read priority of \<^verbatim>\<open>getStored\<close>: the query parameter, then the
  state entry, then the durable entry, null only when none holds a value). The code
  run at an input where the claim asks for another result: in a browser, a provider
  with every flag false stores \<open>k = v\<close> with the per-call option \<^verbatim>\<open>skipUrl: true\<close>.
  The state cell and the durable storage then hold \<open>v\<close> for \<open>k\<close> and the query has
  no \<open>k\<close>, yet \<^verbatim>\<open>getStored\<close> returns null: line 91 returns the query's answer
  before the state and the storage are looked at.
\<close>

theorem getStored_misses_state_and_storage:
  "(let r = ThreeStoreProvider no_flags;
        w = snd (store r (''k'', ''v'') (Some (no_options\<lparr>o_skipUrl := Some True\<rparr>)) (mount browser))
    in url_value w ''k'' = None \<and> state_value w ''k'' = Some ''v''
       \<and> durable_value w ''k'' = Some ''v'' \<and> getStored r ''k'' w = None)"
  by (simp add: Let_def store_def getStored_def mount_def browser_def blank_page_def no_flags_def
        no_options_def nullish_options_def truthy_def ThreeStoreProvider_def setStorage_def
        setItem_def getItem_def url_value_def state_value_def durable_value_def searchParams_get_def)

text \<open>
  Claim C2 (with every flag false, \<^verbatim>\<open>getStored(key)\<close> after
  \<^verbatim>\<open>store([key, value])\<close> returns \<open>value\<close>). The code run without a \<^verbatim>\<open>window\<close>:
  \<^verbatim>\<open>store\<close> raises a ReferenceError at line 80 and \<^verbatim>\<open>getStored\<close> then returns
  null. (With a \<^verbatim>\<open>window\<close> the value comes back: lemma \<open>store_getStored_window\<close>.)
\<close>

theorem store_getStored_without_window:
  "fst (store (ThreeStoreProvider no_flags) (''k'', ''v'') None (mount server)) = Some ReferenceError
   \<and> getStored (ThreeStoreProvider no_flags) ''k''
        (snd (store (ThreeStoreProvider no_flags) (''k'', ''v'') None (mount server))) = None"
  by (simp add: Let_def store_def getStored_def mount_def server_def no_flags_def
        no_options_def nullish_options_def truthy_def ThreeStoreProvider_def setStorage_def js_or_def
        get_property_def Object_prototype_def)

text \<open>
  Claim C3 (teardown removes every key of the state mapping from the query, committed
  when \<^verbatim>\<open>clearUrlParamsOnUnmount\<close> is set, and from durable storage when
  \<^verbatim>\<open>clearLocalStoreOnUnmount\<close> is set). The code run on the claim's own scenario: mount
  with \<^verbatim>\<open>clearUrlParamsOnUnmount\<close> true and \<^verbatim>\<open>clearLocalStoreOnUnmount\<close> false,
  \<^verbatim>\<open>store(["x","1"])\<close>, unmount. Durable storage still holds \<open>x = 1\<close>, as the
  claim says, but so does the query: the clean-up function reads the \<^verbatim>\<open>storage\<close> of
  the first run of the component, which is empty, so it has no key to remove.
\<close>

theorem unmount_keeps_url_parameter:
  "(let q = no_flags\<lparr>clearUrlParamsOnUnmount := True\<rparr>;
        r = ThreeStoreProvider q;
        w = snd (store r (''x'', ''1'') None (mount browser));
        u = unmount q w
    in fst u = None \<and> url_value (snd u) ''x'' = Some ''1'' \<and> durable_value (snd u) ''x'' = Some ''1'')"
  by (simp add: Let_def store_def unmount_def cleanup_def mount_def browser_def blank_page_def
        no_flags_def no_options_def nullish_options_def truthy_def ThreeStoreProvider_def
        setStorage_def setItem_def getItem_def pushState_def url_value_def durable_value_def
        searchParams_get_def)

text \<open>
  Claim C4 (after \<^verbatim>\<open>clearStored(key)\<close>, which removes the key from the query, the
  state mapping and durable storage whatever the flags, \<^verbatim>\<open>getStored(key)\<close> returns
  null, for every key). The code run without a \<^verbatim>\<open>window\<close> on the key
  \<^verbatim>\<open>toString\<close>: after \<^verbatim>\<open>clearStored\<close> no own entry for the key is left in the state
  mapping, yet \<^verbatim>\<open>getStored\<close> returns the function that the object of line 93
  inherits from \<^verbatim>\<open>Object.prototype\<close>, not null. (The removal from the three places
  holds for every key and world, lemma \<open>clearStored_clears\<close>, and null is returned
  whenever there is a \<^verbatim>\<open>window\<close> or the key is not a property name of
  \<^verbatim>\<open>Object.prototype\<close>, lemma \<open>clearStored_getStored\<close>.)
\<close>

theorem clearStored_then_getStored_inherited:
  "state_value (clearStored (ThreeStoreProvider no_flags) ''toString'' (mount server)) ''toString'' = None
   \<and> getStored (ThreeStoreProvider no_flags) ''toString''
        (clearStored (ThreeStoreProvider no_flags) ''toString'' (mount server))
       = Some (Inherited ''toString'')"
  by (simp add: Let_def clearStored_def getStored_def mount_def server_def no_flags_def
        ThreeStoreProvider_def setStorage_def js_or_def get_property_def Object_prototype_def
        state_value_def)

text \<open>
  Claim C5 (without a \<^verbatim>\<open>window\<close>, \<^verbatim>\<open>store\<close> skips every access to the address
  and to durable storage without error and does its state step only). The code run
  without a \<^verbatim>\<open>window\<close> and with every flag false: the address step is skipped and
  the state step is done, but line 80 reads \<^verbatim>\<open>window.localStorage\<close> unguarded and
  raises a ReferenceError.
\<close>

theorem store_without_window_raises:
  "store (ThreeStoreProvider no_flags) (''k'', ''v'') None (mount server)
     = (Some ReferenceError, \<lparr>window = None, state = [(''k'', ''v'')]\<rparr>)"
  by (simp add: Let_def store_def mount_def server_def no_flags_def
        no_options_def nullish_options_def truthy_def ThreeStoreProvider_def setStorage_def)

text \<open>
  Claim C6 as stated (a per-call flag decides whether the step runs, so that the
  per-call \<^verbatim>\<open>skipUrl: false\<close> makes the address write run although the provider has
  \<^verbatim>\<open>skipUrl\<close> true) fails: with exactly these flags, in a browser, the query does not
  hold the stored value after \<^verbatim>\<open>store\<close>.
\<close>

theorem per_call_false_does_not_enable:
  "url_value (snd (store (ThreeStoreProvider (no_flags\<lparr>skipUrl := True\<rparr>)) (''k'', ''v'')
                    (Some (no_options\<lparr>o_skipUrl := Some False\<rparr>)) (mount browser))) ''k''
     \<noteq> Some ''v''"
  by (simp add: Let_def store_def mount_def browser_def blank_page_def no_flags_def
        no_options_def nullish_options_def truthy_def ThreeStoreProvider_def setStorage_def
        setItem_def url_value_def searchParams_get_def)

text \<open>
  Claim C6, amended: a provider flag applies to every \<^verbatim>\<open>store\<close> call and a per-call
  option can only add a suppression. Each of the three steps (address, state, durable
  storage) is skipped when the provider's flag is true or the per-call option is true,
  and runs otherwise; a per-call \<^verbatim>\<open>false\<close> is the same as no option. (Without a
  \<^verbatim>\<open>window\<close> there is no query and no durable storage, before and after.)
\<close>

theorem store_flags_combine:
  "url_params (snd (store r (key, value) options w)) =
     (if skipUrl (props r) \<or> truthy (o_skipUrl (nullish_options options)) then url_params w
      else map_option (searchParams_set key value) (url_params w))
   \<and> state (snd (store r (key, value) options w)) =
     (if skipState (props r) \<or> truthy (o_skipState (nullish_options options)) then state w
      else AList.update key value (state w))
   \<and> durable (snd (store r (key, value) options w)) =
     (if skipLocalStore (props r) \<or> truthy (o_skipLocalStore (nullish_options options)) then durable w
      else map_option (\<lambda>m. m(key \<mapsto> value)) (durable w))"
  by (simp only: store_url_params store_state store_durable simp_thms)

text \<open>
  The statement above at the input of the counterexample: the address is left as it
  was, the state step runs.
\<close>

theorem store_flags_combine_witness:
  "url_params (snd (store (ThreeStoreProvider (no_flags\<lparr>skipUrl := True\<rparr>)) (''k'', ''v'')
                    (Some (no_options\<lparr>o_skipUrl := Some False\<rparr>)) (mount browser))) = Some []
   \<and> state (snd (store (ThreeStoreProvider (no_flags\<lparr>skipUrl := True\<rparr>)) (''k'', ''v'')
                    (Some (no_options\<lparr>o_skipUrl := Some False\<rparr>)) (mount browser))) = [(''k'', ''v'')]"
  using store_flags_combine [of "ThreeStoreProvider (no_flags\<lparr>skipUrl := True\<rparr>)" "''k''" "''v''"
      "Some (no_options\<lparr>o_skipUrl := Some False\<rparr>)" "mount browser"]
  by (simp add: ThreeStoreProvider_def no_flags_def no_options_def nullish_options_def truthy_def
        mount_def browser_def blank_page_def url_params_def)

text \<open>
  Claim C7 as stated (an address write leaves the length of the history unchanged)
  fails: \<^verbatim>\<open>store\<close> in a browser whose history has the one current entry leaves a
  history of another length.
\<close>

theorem store_adds_history_entry:
  "map_option history_length
     (window (snd (store (ThreeStoreProvider no_flags) (''k'', ''v'') None (mount browser))))
   \<noteq> map_option history_length (window (mount browser))"
  by (simp add: Let_def store_def mount_def browser_def blank_page_def no_flags_def
        no_options_def nullish_options_def truthy_def ThreeStoreProvider_def setStorage_def
        setItem_def pushState_def history_length_def)

text \<open>
  Claim C7, amended: every address write of \<^verbatim>\<open>store\<close> and of \<^verbatim>\<open>clearStored\<close>
  goes through \<^verbatim>\<open>history.pushState\<close>. The address before the write becomes the most
  recent entry behind the current one, the entries ahead are dropped, the part of the
  address outside the query is kept, and the history then has two more entries than
  there were entries behind the current one (one more than before when nothing was
  ahead).
\<close>

theorem url_write_pushes_entry:
  assumes "window w = Some p"
  shows "(\<not> skipUrl (props r) \<and> \<not> truthy (o_skipUrl (nullish_options options)) \<longrightarrow>
            map_option back_entries (window (snd (store r (key, value) options w)))
              = Some (href p # back_entries p)
          \<and> map_option forward_entries (window (snd (store r (key, value) options w))) = Some []
          \<and> map_option (\<lambda>q. base (href q)) (window (snd (store r (key, value) options w)))
              = Some (base (href p))
          \<and> map_option history_length (window (snd (store r (key, value) options w)))
              = Some (length (back_entries p) + 2))
       \<and> map_option back_entries (window (clearStored r key w)) = Some (href p # back_entries p)
       \<and> map_option forward_entries (window (clearStored r key w)) = Some []
       \<and> map_option (\<lambda>q. base (href q)) (window (clearStored r key w)) = Some (base (href p))
       \<and> map_option history_length (window (clearStored r key w)) = Some (length (back_entries p) + 2)"
  using assms
  by (simp add: store_def clearStored_def Let_def setStorage_def pushState_def setItem_def
        removeItem_def history_length_def)

text \<open>
  The statement above for a browser with a single history entry: two entries after
  either operation.
\<close>

theorem url_write_pushes_entry_witness:
  "window (mount browser) = Some blank_page
   \<and> map_option history_length
       (window (snd (store (ThreeStoreProvider no_flags) (''k'', ''v'') None (mount browser)))) = Some 2
   \<and> map_option history_length
       (window (clearStored (ThreeStoreProvider no_flags) ''k'' (mount browser))) = Some 2"
proof -
  have h: "window (mount browser) = Some blank_page"
    by (simp add: mount_def browser_def)
  from url_write_pushes_entry [OF h, of "ThreeStoreProvider no_flags" None "''k''" "''v''"] h
  show ?thesis
    by (simp add: ThreeStoreProvider_def no_flags_def no_options_def nullish_options_def truthy_def
          blank_page_def numeral_2_eq_2)
qed

text \<open>
  Claim C8: when durable storage is suppressed (by the provider or by the call),
  \<^verbatim>\<open>store([key, value])\<close> raises nothing and leaves durable storage as it was, the
  entry for the key included; the state entry for the key is the value when the state
  step is not suppressed, and the query parameter is the value when the address step is
  not suppressed and there is an address.
\<close>

theorem store_skipLocalStore_frame:
  assumes "skipLocalStore (props r) \<or> truthy (o_skipLocalStore (nullish_options options))"
  shows "fst (store r (key, value) options w) = None
       \<and> durable (snd (store r (key, value) options w)) = durable w
       \<and> durable_value (snd (store r (key, value) options w)) key = durable_value w key
       \<and> (\<not> skipState (props r) \<and> \<not> truthy (o_skipState (nullish_options options)) \<longrightarrow>
            state_value (snd (store r (key, value) options w)) key = Some value)
       \<and> (\<not> skipUrl (props r) \<and> \<not> truthy (o_skipUrl (nullish_options options)) \<and> window w \<noteq> None \<longrightarrow>
            url_value (snd (store r (key, value) options w)) key = Some value)"
proof -
  let ?w = "snd (store r (key, value) options w)"
  have e: "fst (store r (key, value) options w) = None"
    using assms by (auto simp: store_raises)
  have d: "durable ?w = durable w"
    using assms by (auto simp: store_durable)
  have s: "state_value ?w key = Some value"
    if "\<not> skipState (props r) \<and> \<not> truthy (o_skipState (nullish_options options))"
    using that by (simp add: state_value_def store_state AList.update_conv')
  have u: "url_value ?w key = Some value"
    if "\<not> skipUrl (props r) \<and> \<not> truthy (o_skipUrl (nullish_options options)) \<and> window w \<noteq> None"
  proof -
    from that obtain ps where "url_params w = Some ps"
      by (auto simp: url_params_def)
    with that show ?thesis
      by (simp add: url_value_params store_url_params get_set_same)
  qed
  from e d s u show ?thesis
    by (simp add: durable_value_durable)
qed

text \<open>
  The statement above for a provider with \<^verbatim>\<open>skipLocalStore\<close> true in a browser.
\<close>

theorem store_skipLocalStore_frame_witness:
  "fst (store (ThreeStoreProvider (no_flags\<lparr>skipLocalStore := True\<rparr>)) (''k'', ''v'') None (mount browser)) = None
   \<and> durable_value (snd (store (ThreeStoreProvider (no_flags\<lparr>skipLocalStore := True\<rparr>)) (''k'', ''v'') None (mount browser))) ''k'' = None
   \<and> state_value (snd (store (ThreeStoreProvider (no_flags\<lparr>skipLocalStore := True\<rparr>)) (''k'', ''v'') None (mount browser))) ''k'' = Some ''v''
   \<and> url_value (snd (store (ThreeStoreProvider (no_flags\<lparr>skipLocalStore := True\<rparr>)) (''k'', ''v'') None (mount browser))) ''k'' = Some ''v''"
proof -
  have h: "skipLocalStore (props (ThreeStoreProvider (no_flags\<lparr>skipLocalStore := True\<rparr>)))
           \<or> truthy (o_skipLocalStore (nullish_options None))"
    by (simp add: ThreeStoreProvider_def)
  have d: "durable_value (mount browser) ''k'' = None"
    by (simp add: durable_value_def mount_def browser_def blank_page_def getItem_def)
  from store_skipLocalStore_frame [OF h, of "''k''" "''v''" "mount browser"] d
  show ?thesis
    by (simp add: ThreeStoreProvider_def no_flags_def no_options_def nullish_options_def truthy_def
          mount_def browser_def)
qed

text \<open>
  Claim C9: for every entry, every provider and every per-call option, a second
  \<^verbatim>\<open>store\<close> with the same arguments leaves the query, the state mapping and durable
  storage as the first call left them, and raises exactly what the first call raised.
\<close>

theorem store_idempotent:
  "observable (snd (store r (key, value) options (snd (store r (key, value) options w))))
     = observable (snd (store r (key, value) options w))
   \<and> fst (store r (key, value) options (snd (store r (key, value) options w)))
     = fst (store r (key, value) options w)"
proof -
  let ?w1 = "snd (store r (key, value) options w)"
  let ?w2 = "snd (store r (key, value) options ?w1)"
  have u: "url_params ?w2 = url_params ?w1"
    by (simp add: store_url_params option.map_comp comp_def set_idem)
  have s: "state ?w2 = state ?w1"
    by (simp add: store_state)
  have d: "durable ?w2 = durable ?w1"
    by (simp add: store_durable option.map_comp comp_def)
  have e: "fst (store r (key, value) options ?w1) = fst (store r (key, value) options w)"
    by (simp add: store_raises store_window_None)
  from u s d e show ?thesis
    by (simp add: observable_def)
qed

text \<open>
  The statement above for one entry stored twice in a browser.
\<close>

theorem store_idempotent_witness:
  "observable (snd (store (ThreeStoreProvider no_flags) (''k'', ''v'') None
                  (snd (store (ThreeStoreProvider no_flags) (''k'', ''v'') None (mount browser)))))
     = observable (snd (store (ThreeStoreProvider no_flags) (''k'', ''v'') None (mount browser)))"
  using store_idempotent [of "ThreeStoreProvider no_flags" "''k''" "''v''" None "mount browser"]
  by blast

text \<open>
  Claim C10: \<^verbatim>\<open>store([k, v])\<close> and \<^verbatim>\<open>clearStored(k)\<close> leave the value of every
  other key as it was in the query, in the state mapping (the update builds a new
  object from the old one) and in durable storage.
\<close>

theorem other_keys_untouched:
  assumes "k' \<noteq> k"
  shows "url_value (snd (store r (k, v) options w)) k' = url_value w k'
       \<and> state_value (snd (store r (k, v) options w)) k' = state_value w k'
       \<and> durable_value (snd (store r (k, v) options w)) k' = durable_value w k'
       \<and> url_value (clearStored r k w) k' = url_value w k'
       \<and> state_value (clearStored r k w) k' = state_value w k'
       \<and> durable_value (clearStored r k w) k' = durable_value w k'"
proof -
  have a: "url_value (snd (store r (k, v) options w)) k' = url_value w k'"
    using assms by (cases "url_params w") (simp_all add: url_value_params store_url_params get_set_other)
  have b: "state_value (snd (store r (k, v) options w)) k' = state_value w k'"
    using assms by (simp add: state_value_def store_state AList.update_conv')
  have c: "durable_value (snd (store r (k, v) options w)) k' = durable_value w k'"
    using assms by (cases "durable w") (simp_all add: durable_value_durable store_durable)
  have d: "url_value (clearStored r k w) k' = url_value w k'"
    using assms by (cases "url_params w") (simp_all add: url_value_params clearStored_url_params get_delete_other)
  have e: "state_value (clearStored r k w) k' = state_value w k'"
    using assms by (simp add: state_value_def clearStored_state)
  have f: "durable_value (clearStored r k w) k' = durable_value w k'"
    using assms by (cases "durable w") (simp_all add: durable_value_durable clearStored_durable)
  from a b c d e f show ?thesis by simp
qed

text \<open>
  The statement above on the specification's scenario: after \<open>b = 2\<close> is stored,
  clearing \<open>a\<close> leaves \<open>b\<close> at \<open>2\<close>.
\<close>

theorem other_keys_untouched_witness:
  "''b'' \<noteq> ''a''
   \<and> url_value (clearStored (ThreeStoreProvider no_flags) ''a''
        (snd (store (ThreeStoreProvider no_flags) (''b'', ''2'') None (mount browser)))) ''b'' = Some ''2''
   \<and> durable_value (clearStored (ThreeStoreProvider no_flags) ''a''
        (snd (store (ThreeStoreProvider no_flags) (''b'', ''2'') None (mount browser)))) ''b'' = Some ''2''"
proof -
  have h: "''b'' \<noteq> ''a''" by simp
  have s: "url_value (snd (store (ThreeStoreProvider no_flags) (''b'', ''2'') None (mount browser))) ''b'' = Some ''2''
         \<and> durable_value (snd (store (ThreeStoreProvider no_flags) (''b'', ''2'') None (mount browser))) ''b'' = Some ''2''"
    by (simp add: Let_def store_def mount_def browser_def blank_page_def no_flags_def
        no_options_def nullish_options_def truthy_def ThreeStoreProvider_def setStorage_def
        setItem_def getItem_def pushState_def url_value_def durable_value_def searchParams_get_def)
  from other_keys_untouched [OF h, of "ThreeStoreProvider no_flags" "''2''" None
      "snd (store (ThreeStoreProvider no_flags) (''b'', ''2'') None (mount browser))"] s h
  show ?thesis by simp
qed

end
